theory Spec2Isabelle
  imports Main "HOL-Library.Word"
begin

unbundle bit_operations_syntax

section \<open>Machine data\<close>

text \<open>
  The archives of \<^verbatim>\<open>serialize.hh\<close> move raw bytes. A byte is an 8-bit word, the C++ type
  \<^verbatim>\<open>unsigned\<close> a 32-bit word (arithmetic wraps), and \<^verbatim>\<open>sizeof(unsigned)\<close> is 4.
  The memory behind a pointer \<^verbatim>\<open>const void* data\<close> is the list of the bytes stored from
  that address on; a primitive value \<^verbatim>\<open>t\<close> is given by its object representation, the
  \<^verbatim>\<open>sizeof(t)\<close> bytes at \<^verbatim>\<open>&t\<close>.
\<close>

type_synonym byte = "8 word"
type_synonym unsigned = "32 word"

datatype endianness = LittleEndian | BigEndian

datatype error =
    AssertionFailed
  | TruncatedStream
  | OutOfRange
  | UnknownDiscriminator string

definition le_bytes :: "unsigned \<Rightarrow> byte list" where
  "le_bytes w = [ucast w, ucast (drop_bit 8 w), ucast (drop_bit 16 w), ucast (drop_bit 24 w)]"

fun le_word :: "byte list \<Rightarrow> unsigned" where
  "le_word [] = 0"
| "le_word (b # bs) = ucast b OR push_bit 8 (le_word bs)"

text \<open>The in-memory bytes of an \<^verbatim>\<open>unsigned\<close> in the platform's native byte order.\<close>

definition object_bytes :: "endianness \<Rightarrow> unsigned \<Rightarrow> byte list" where
  "object_bytes e w = (case e of LittleEndian \<Rightarrow> le_bytes w | BigEndian \<Rightarrow> rev (le_bytes w))"

definition object_value :: "endianness \<Rightarrow> byte list \<Rightarrow> unsigned" where
  "object_value e bs = (case e of LittleEndian \<Rightarrow> le_word bs | BigEndian \<Rightarrow> le_word (rev bs))"

definition sizeof :: "byte list \<Rightarrow> unsigned" where
  "sizeof t = word_of_nat (length t)"

definition sizeof_unsigned :: unsigned where
  "sizeof_unsigned = 4"


section \<open>The memory buffers\<close>

text \<open>
  Modelled from the spec: \<^verbatim>\<open>OutputBuffer\<close> (\<^verbatim>\<open>MemBuffer.hh\<close>) is not among the sources.
  It is the growable byte buffer of the binary backend: \<^verbatim>\<open>insert\<close> appends \<^verbatim>\<open>len\<close> raw
  bytes, \<^verbatim>\<open>getPosition\<close> is the current offset (the number of bytes written, as an
  \<^verbatim>\<open>unsigned\<close>), and \<^verbatim>\<open>insertAt\<close> overwrites \<^verbatim>\<open>len\<close> bytes at an earlier offset
  (the back-patch); an overwrite that does not lie inside the buffer is an error.
\<close>

type_synonym OutputBuffer = "byte list"

definition OutputBuffer_insert :: "OutputBuffer \<Rightarrow> byte list \<Rightarrow> unsigned \<Rightarrow> OutputBuffer" where
  "OutputBuffer_insert buf data len = buf @ take (unat len) data"

definition OutputBuffer_getPosition :: "OutputBuffer \<Rightarrow> unsigned" where
  "OutputBuffer_getPosition buf = word_of_nat (length buf)"

definition OutputBuffer_insertAt ::
  "OutputBuffer \<Rightarrow> unsigned \<Rightarrow> byte list \<Rightarrow> unsigned \<Rightarrow> error + OutputBuffer" where
  "OutputBuffer_insertAt buf pos data len =
     (if unat pos + unat len \<le> length buf
      then Inr (take (unat pos) buf @ take (unat len) data @ drop (unat pos + unat len) buf)
      else Inl OutOfRange)"

text \<open>
  Modelled from the spec: \<^verbatim>\<open>InputBuffer\<close> (\<^verbatim>\<open>MemBuffer.hh\<close>) is not among the sources.
  It is a cursor over the saved bytes: \<^verbatim>\<open>read\<close> copies \<^verbatim>\<open>len\<close> bytes at the cursor over
  the first \<^verbatim>\<open>len\<close> bytes of the destination and advances the cursor; reading past the
  available data is the pass-fatal truncated-stream failure; \<^verbatim>\<open>skip\<close> advances the cursor
  without decoding.
\<close>

record InputBuffer =
  stream :: "byte list"
  cursor :: nat

definition InputBuffer_read ::
  "InputBuffer \<Rightarrow> byte list \<Rightarrow> unsigned \<Rightarrow> error + (byte list \<times> InputBuffer)" where
  "InputBuffer_read b dest len =
     (if cursor b + unat len \<le> length (stream b)
      then Inr (take (unat len) (drop (cursor b) (stream b)) @ drop (unat len) dest,
                b\<lparr>cursor := cursor b + unat len\<rparr>)
      else Inl TruncatedStream)"

definition InputBuffer_skip :: "InputBuffer \<Rightarrow> unsigned \<Rightarrow> InputBuffer" where
  "InputBuffer_skip b len = b\<lparr>cursor := cursor b + unat len\<rparr>"


section \<open>The binary backend\<close>

subsection \<open>MemOutputArchive\<close>

record MemOutputArchive =
  buffer :: OutputBuffer
  openSections :: "unsigned list"

definition MemOutputArchive_put ::
  "byte list \<Rightarrow> unsigned \<Rightarrow> MemOutputArchive \<Rightarrow> MemOutputArchive" where
  "MemOutputArchive_put data len ar =
     (if len \<noteq> 0 then ar\<lparr>buffer := OutputBuffer_insert (buffer ar) data len\<rparr> else ar)"

definition MemOutputArchive_save :: "byte list \<Rightarrow> MemOutputArchive \<Rightarrow> MemOutputArchive" where
  "MemOutputArchive_save t ar = MemOutputArchive_put t (sizeof t) ar"

definition MemOutputArchive_serialize_blob ::
  "string \<Rightarrow> byte list \<Rightarrow> unsigned \<Rightarrow> MemOutputArchive \<Rightarrow> MemOutputArchive" where
  "MemOutputArchive_serialize_blob tag data len ar = MemOutputArchive_put data len ar"

definition MemOutputArchive_beginSection ::
  "endianness \<Rightarrow> MemOutputArchive \<Rightarrow> MemOutputArchive" where
  "MemOutputArchive_beginSection e ar =
     (let skip = 0;
          ar1 = MemOutputArchive_save (object_bytes e skip) ar;
          beginPos = OutputBuffer_getPosition (buffer ar1)
      in ar1\<lparr>openSections := openSections ar1 @ [beginPos]\<rparr>)"

definition MemOutputArchive_endSection ::
  "endianness \<Rightarrow> MemOutputArchive \<Rightarrow> error + MemOutputArchive" where
  "MemOutputArchive_endSection e ar =
     (if openSections ar = [] then Inl AssertionFailed
      else
        let endPos = OutputBuffer_getPosition (buffer ar);
            beginPos = last (openSections ar);
            ar1 = ar\<lparr>openSections := butlast (openSections ar)\<rparr>;
            skip = endPos - beginPos
        in case OutputBuffer_insertAt (buffer ar1) (beginPos - sizeof_unsigned)
                  (object_bytes e skip) sizeof_unsigned of
             Inl err \<Rightarrow> Inl err
           | Inr buf \<Rightarrow> Inr (ar1\<lparr>buffer := buf\<rparr>))"

subsection \<open>MemInputArchive\<close>

text \<open>
  The state of a \<^verbatim>\<open>MemInputArchive\<close> is its \<^verbatim>\<open>InputBuffer\<close> (the member \<^verbatim>\<open>pos\<close> of the
  class is never used). \<^verbatim>\<open>load\<close> and \<^verbatim>\<open>serialize_blob\<close> overwrite the destination in
  place: they take the destination's bytes and return its new bytes.
\<close>

type_synonym MemInputArchive = InputBuffer

definition MemInputArchive_get ::
  "byte list \<Rightarrow> unsigned \<Rightarrow> MemInputArchive \<Rightarrow> error + (byte list \<times> MemInputArchive)" where
  "MemInputArchive_get dest len ar =
     (if len \<noteq> 0 then InputBuffer_read ar dest len else Inr (dest, ar))"

definition MemInputArchive_load ::
  "byte list \<Rightarrow> MemInputArchive \<Rightarrow> error + (byte list \<times> MemInputArchive)" where
  "MemInputArchive_load t ar = MemInputArchive_get t (sizeof t) ar"

definition MemInputArchive_serialize_blob ::
  "string \<Rightarrow> byte list \<Rightarrow> unsigned \<Rightarrow> MemInputArchive \<Rightarrow> error + (byte list \<times> MemInputArchive)" where
  "MemInputArchive_serialize_blob tag dest len ar = MemInputArchive_get dest len ar"

text \<open>
  \<^verbatim>\<open>skipSection\<close> loads into the uninitialised local \<^verbatim>\<open>num\<close>; all four of its bytes
  are overwritten, so the model starts it at zero.
\<close>

definition MemInputArchive_skipSection ::
  "endianness \<Rightarrow> bool \<Rightarrow> MemInputArchive \<Rightarrow> error + MemInputArchive" where
  "MemInputArchive_skipSection e skip ar =
     (case MemInputArchive_load (object_bytes e 0) ar of
        Inl err \<Rightarrow> Inl err
      | Inr (num, ar1) \<Rightarrow>
          if skip then Inr (InputBuffer_skip ar1 (object_value e num)) else Inr ar1)"


subsection \<open>A client pass over the binary backend\<close>

text \<open>
  What a client's \<^verbatim>\<open>serialize\<close> routine does to a binary archive is a sequence of
  primitive saves and of sections, each a \<^verbatim>\<open>beginSection()\<close>, the calls for the content
  and the matching \<^verbatim>\<open>endSection()\<close>; sections nest. \<^verbatim>\<open>Prim t\<close> is a saved primitive,
  given by its bytes.
\<close>

datatype item = Prim "byte list" | Section "item list"

fun save_item :: "endianness \<Rightarrow> item \<Rightarrow> MemOutputArchive \<Rightarrow> error + MemOutputArchive"
  and save_items :: "endianness \<Rightarrow> item list \<Rightarrow> MemOutputArchive \<Rightarrow> error + MemOutputArchive"
where
  "save_item e (Prim t) ar = Inr (MemOutputArchive_save t ar)"
| "save_item e (Section body) ar =
     (case save_items e body (MemOutputArchive_beginSection e ar) of
        Inl err \<Rightarrow> Inl err
      | Inr ar1 \<Rightarrow> MemOutputArchive_endSection e ar1)"
| "save_items e [] ar = Inr ar"
| "save_items e (i # is) ar =
     (case save_item e i ar of
        Inl err \<Rightarrow> Inl err
      | Inr ar1 \<Rightarrow> save_items e is ar1)"

text \<open>
  The loading client issues the same calls in the same order: a \<^verbatim>\<open>load\<close> into a
  destination object for each primitive, and for each section a \<^verbatim>\<open>skipSection(skip)\<close>
  followed, when the section is not skipped, by the calls for its content. The result
  lists the loaded primitives in order.
\<close>

datatype plan = Load "byte list" | Skip bool "plan list"

fun load_plan ::
    "endianness \<Rightarrow> plan \<Rightarrow> MemInputArchive \<Rightarrow> error + (byte list list \<times> MemInputArchive)"
  and load_plans ::
    "endianness \<Rightarrow> plan list \<Rightarrow> MemInputArchive \<Rightarrow> error + (byte list list \<times> MemInputArchive)"
where
  "load_plan e (Load dest) ar =
     (case MemInputArchive_load dest ar of
        Inl err \<Rightarrow> Inl err
      | Inr (t, ar1) \<Rightarrow> Inr ([t], ar1))"
| "load_plan e (Skip skip body) ar =
     (case MemInputArchive_skipSection e skip ar of
        Inl err \<Rightarrow> Inl err
      | Inr ar1 \<Rightarrow> if skip then Inr ([], ar1) else load_plans e body ar1)"
| "load_plans e [] ar = Inr ([], ar)"
| "load_plans e (p # ps) ar =
     (case load_plan e p ar of
        Inl err \<Rightarrow> Inl err
      | Inr (vs, ar1) \<Rightarrow>
          (case load_plans e ps ar1 of
             Inl err \<Rightarrow> Inl err
           | Inr (ws, ar2) \<Rightarrow> Inr (vs @ ws, ar2)))"

text \<open>The plan that parses an item in full, into zeroed destinations of the saved sizes.\<close>

fun parse :: "item \<Rightarrow> plan" where
  "parse (Prim t) = Load (replicate (length t) 0)"
| "parse (Section body) = Skip False (map parse body)"

text \<open>The primitives of an item, in order.\<close>

fun prims :: "item \<Rightarrow> byte list list" where
  "prims (Prim t) = [t]"
| "prims (Section body) = concat (map prims body)"

text \<open>
  The byte layout of the binary stream: a primitive is its bytes, a section is its length
  as an \<^verbatim>\<open>unsigned\<close> followed by its content.
\<close>

fun wire :: "endianness \<Rightarrow> item \<Rightarrow> byte list"
  and wires :: "endianness \<Rightarrow> item list \<Rightarrow> byte list"
where
  "wire e (Prim t) = t"
| "wire e (Section body) =
     object_bytes e (word_of_nat (length (wires e body))) @ wires e body"
| "wires e [] = []"
| "wires e (i # is) = wire e i @ wires e is"


section \<open>Shared ownership on load\<close>

text \<open>
  A raw handle \<^verbatim>\<open>T*\<close> is an address, \<^verbatim>\<open>NULL\<close> is 0. The \<^verbatim>\<open>shared_ptr\<close> objects of the
  program (the fields being loaded) live in a store, by their own address, because
  \<^verbatim>\<open>resetSharedPtr\<close> keeps the address \<^verbatim>\<open>&s\<close> of the first wrapper in its table and
  reads that wrapper again later.
\<close>

type_synonym handle = nat
type_synonym address = nat

definition NULL :: handle where
  "NULL = 0"

text \<open>
  Modelled from the spec: \<^verbatim>\<open>shared_ptr.hh\<close> is not among the sources. A shared-ownership
  wrapper holds the raw handle \<^verbatim>\<open>px\<close> and shares a use counter \<^verbatim>\<open>pn\<close> with every wrapper
  copied from it; an empty wrapper has neither. \<^verbatim>\<open>s.reset()\<close> gives up the wrapper's share
  and empties it, \<^verbatim>\<open>s.reset(r)\<close> makes it the first owner of \<^verbatim>\<open>r\<close> under a new counter,
  and \<^verbatim>\<open>s = s2\<close> makes it one more owner under the counter of \<^verbatim>\<open>s2\<close>. The share count
  of a wrapper is the value of its counter; the owner that gives up the last share
  destroys the object.
\<close>

record shared_ptr =
  px :: handle
  pn :: "nat option"

record heap =
  wrappers :: "address \<Rightarrow> shared_ptr"
  counters :: "nat \<Rightarrow> nat"
  next_counter :: nat
  destroyed :: "handle set"

definition empty_shared_ptr :: shared_ptr where
  "empty_shared_ptr = \<lparr>px = NULL, pn = None\<rparr>"

definition use_count :: "heap \<Rightarrow> address \<Rightarrow> nat" where
  "use_count h s = (case pn (wrappers h s) of None \<Rightarrow> 0 | Some c \<Rightarrow> counters h c)"

definition release :: "shared_ptr \<Rightarrow> heap \<Rightarrow> heap" where
  "release old h =
     (case pn old of
        None \<Rightarrow> h
      | Some c \<Rightarrow>
          if counters h c = 1
          then h\<lparr>counters := (counters h)(c := 0), destroyed := insert (px old) (destroyed h)\<rparr>
          else h\<lparr>counters := (counters h)(c := counters h c - 1)\<rparr>)"

definition shared_ptr_reset :: "address \<Rightarrow> heap \<Rightarrow> heap" where
  "shared_ptr_reset s h =
     release (wrappers h s) (h\<lparr>wrappers := (wrappers h)(s := empty_shared_ptr)\<rparr>)"

definition shared_ptr_reset_to :: "address \<Rightarrow> handle \<Rightarrow> heap \<Rightarrow> heap" where
  "shared_ptr_reset_to s r h =
     (let c = next_counter h
      in release (wrappers h s)
           (h\<lparr>wrappers := (wrappers h)(s := \<lparr>px = r, pn = Some c\<rparr>),
              counters := (counters h)(c := 1),
              next_counter := c + 1\<rparr>))"

definition shared_ptr_assign :: "address \<Rightarrow> address \<Rightarrow> heap \<Rightarrow> heap" where
  "shared_ptr_assign s s2 h =
     (let src = wrappers h s2;
          h1 = (case pn src of
                  None \<Rightarrow> h
                | Some c \<Rightarrow> h\<lparr>counters := (counters h)(c := counters h c + 1)\<rparr>)
      in release (wrappers h s) (h1\<lparr>wrappers := (wrappers h1)(s := src)\<rparr>))"

text \<open>
  The load-side tables of \<^verbatim>\<open>InputArchiveBase2\<close>: \<^verbatim>\<open>idMap\<close> from IDs to reconstructed
  handles and \<^verbatim>\<open>sharedPtrMap\<close> from raw handles to the address of the wrapper that first
  claimed them.
\<close>

record InputArchiveBase2 =
  pointerIdMap :: "unsigned \<rightharpoonup> handle"
  sharedPtrMap :: "handle \<rightharpoonup> address"

definition resetSharedPtr ::
  "address \<Rightarrow> handle \<Rightarrow> InputArchiveBase2 \<times> heap \<Rightarrow> InputArchiveBase2 \<times> heap" where
  "resetSharedPtr s r st =
     (let ar = fst st; h = snd st
      in if r = NULL then (ar, shared_ptr_reset s h)
         else case sharedPtrMap ar r of
                None \<Rightarrow> (ar\<lparr>sharedPtrMap := (sharedPtrMap ar)(r \<mapsto> s)\<rparr>, shared_ptr_reset_to s r h)
              | Some s2 \<Rightarrow> (ar, shared_ptr_assign s s2 h))"

text \<open>A load pass, as far as shared ownership goes: the \<^verbatim>\<open>resetSharedPtr\<close> calls in order.\<close>

fun load_pass ::
  "(address \<times> handle) list \<Rightarrow> InputArchiveBase2 \<times> heap \<Rightarrow> InputArchiveBase2 \<times> heap" where
  "load_pass [] st = st"
| "load_pass ((s, r) # calls) st = load_pass calls (resetSharedPtr s r st)"

text \<open>
  Counters are handed out in increasing order, so no wrapper refers to a counter that is
  still to be handed out.
\<close>

definition heap_ok :: "heap \<Rightarrow> bool" where
  "heap_ok h = (\<forall>a c. pn (wrappers h a) = Some c \<longrightarrow> c < next_counter h)"

definition empty_heap :: heap where
  "empty_heap = \<lparr>wrappers = (\<lambda>a. empty_shared_ptr), counters = (\<lambda>c. 0),
                 next_counter = 0, destroyed = {}\<rparr>"




section \<open>Identity on save\<close>

text \<open>
  What \<^verbatim>\<open>generateId\<close> and \<^verbatim>\<open>getId\<close> see of their template parameter \<^verbatim>\<open>T\<close>: its
  \<^verbatim>\<open>typeid\<close> and the trait \<^verbatim>\<open>is_polymorphic<T>::value\<close>.
\<close>

type_synonym TypeInfo = nat

record static_type =
  typeid :: TypeInfo
  is_polymorphic :: bool

record OutputArchiveBase2 =
  idMap :: "handle \<times> TypeInfo \<rightharpoonup> unsigned"
  polyIdMap :: "handle \<rightharpoonup> unsigned"
  lastId :: unsigned

text \<open>
  Modelled from the spec: the constructor and the four private helpers are declared in
  \<^verbatim>\<open>serialize.hh\<close> and defined in \<^verbatim>\<open>serialize.cc\<close>, which is not among the sources. IDs
  are dense and start at 1, 0 stands for no object; generating assigns the next ID to the
  key, getting looks the key up (and answers 0 for a key without an ID).
\<close>

definition OutputArchiveBase2_new :: OutputArchiveBase2 where
  "OutputArchiveBase2_new = \<lparr>idMap = Map.empty, polyIdMap = Map.empty, lastId = 0\<rparr>"

definition generateID1 :: "handle \<Rightarrow> OutputArchiveBase2 \<Rightarrow> unsigned \<times> OutputArchiveBase2" where
  "generateID1 p ar =
     (let n = lastId ar + 1
      in (n, ar\<lparr>lastId := n, polyIdMap := (polyIdMap ar)(p \<mapsto> n)\<rparr>))"

definition generateID2 ::
  "handle \<Rightarrow> TypeInfo \<Rightarrow> OutputArchiveBase2 \<Rightarrow> unsigned \<times> OutputArchiveBase2" where
  "generateID2 p typeInfo ar =
     (let n = lastId ar + 1
      in (n, ar\<lparr>lastId := n, idMap := (idMap ar)((p, typeInfo) \<mapsto> n)\<rparr>))"

definition getID1 :: "handle \<Rightarrow> OutputArchiveBase2 \<Rightarrow> unsigned" where
  "getID1 p ar = (case polyIdMap ar p of None \<Rightarrow> 0 | Some n \<Rightarrow> n)"

definition getID2 :: "handle \<Rightarrow> TypeInfo \<Rightarrow> OutputArchiveBase2 \<Rightarrow> unsigned" where
  "getID2 p typeInfo ar = (case idMap ar (p, typeInfo) of None \<Rightarrow> 0 | Some n \<Rightarrow> n)"

text \<open>The two template methods of \<^verbatim>\<open>OutputArchiveBase2\<close>, as in \<^verbatim>\<open>serialize.hh\<close>.\<close>

definition generateId ::
  "static_type \<Rightarrow> handle \<Rightarrow> OutputArchiveBase2 \<Rightarrow> unsigned \<times> OutputArchiveBase2" where
  "generateId T p ar =
     (if is_polymorphic T then generateID1 p ar else generateID2 p (typeid T) ar)"

definition getId :: "static_type \<Rightarrow> handle \<Rightarrow> OutputArchiveBase2 \<Rightarrow> unsigned" where
  "getId T p ar =
     (if is_polymorphic T then getID1 p ar else getID2 p (typeid T) ar)"


section \<open>The archive classes\<close>

text \<open>
  The four concrete archives of \<^verbatim>\<open>serialize.hh\<close>. Their methods are found by name lookup
  through the base classes (\<^verbatim>\<open>ArchiveBase\<close>, then \<^verbatim>\<open>OutputArchiveBase2\<close> or
  \<^verbatim>\<open>InputArchiveBase2\<close>): a method the concrete class declares hides the inherited one.
\<close>

datatype archive_class = MemOutput | MemInput | XmlOutput | XmlInput

subsection \<open>Capability probes\<close>

definition ArchiveBase_needVersion :: bool where
  "ArchiveBase_needVersion = True"

definition ArchiveBase_translateEnumToString :: bool where
  "ArchiveBase_translateEnumToString = False"

definition ArchiveBase_canHaveOptionalAttributes :: bool where
  "ArchiveBase_canHaveOptionalAttributes = False"

definition ArchiveBase_canCountChildren :: bool where
  "ArchiveBase_canCountChildren = False"

definition OutputArchiveBase2_isLoader :: bool where
  "OutputArchiveBase2_isLoader = False"

definition InputArchiveBase2_isLoader :: bool where
  "InputArchiveBase2_isLoader = True"

fun needVersion :: "archive_class \<Rightarrow> bool" where
  "needVersion MemOutput = False"
| "needVersion MemInput = False"
| "needVersion XmlOutput = ArchiveBase_needVersion"
| "needVersion XmlInput = ArchiveBase_needVersion"

fun translateEnumToString :: "archive_class \<Rightarrow> bool" where
  "translateEnumToString MemOutput = ArchiveBase_translateEnumToString"
| "translateEnumToString MemInput = ArchiveBase_translateEnumToString"
| "translateEnumToString XmlOutput = True"
| "translateEnumToString XmlInput = True"

fun canHaveOptionalAttributes :: "archive_class \<Rightarrow> bool" where
  "canHaveOptionalAttributes MemOutput = ArchiveBase_canHaveOptionalAttributes"
| "canHaveOptionalAttributes MemInput = ArchiveBase_canHaveOptionalAttributes"
| "canHaveOptionalAttributes XmlOutput = True"
| "canHaveOptionalAttributes XmlInput = True"

fun canCountChildren :: "archive_class \<Rightarrow> bool" where
  "canCountChildren MemOutput = ArchiveBase_canCountChildren"
| "canCountChildren MemInput = ArchiveBase_canCountChildren"
| "canCountChildren XmlOutput = True"
| "canCountChildren XmlInput = True"

fun isLoader :: "archive_class \<Rightarrow> bool" where
  "isLoader MemOutput = OutputArchiveBase2_isLoader"
| "isLoader MemInput = InputArchiveBase2_isLoader"
| "isLoader XmlOutput = OutputArchiveBase2_isLoader"
| "isLoader XmlInput = InputArchiveBase2_isLoader"

subsection \<open>Section operations and capability queries\<close>

text \<open>
  What the body reached by a call is: the \<^verbatim>\<open>assert(false)\<close> of a base class, an empty
  body, or the concrete class's own code.
\<close>

datatype body = AssertFalse | Nothing | Implemented

datatype operation = BeginSection | EndSection | SkipSection | HasAttribute | CountChildren

definition ArchiveBase_hasAttribute :: body where
  "ArchiveBase_hasAttribute = AssertFalse"

definition ArchiveBase_countChildren :: body where
  "ArchiveBase_countChildren = AssertFalse"

definition OutputArchiveBase2_skipSection :: body where
  "OutputArchiveBase2_skipSection = AssertFalse"

definition InputArchiveBase2_beginSection :: body where
  "InputArchiveBase2_beginSection = AssertFalse"

definition InputArchiveBase2_endSection :: body where
  "InputArchiveBase2_endSection = AssertFalse"

fun called :: "archive_class \<Rightarrow> operation \<Rightarrow> body" where
  "called MemOutput BeginSection = Implemented"
| "called MemOutput EndSection = Implemented"
| "called MemOutput SkipSection = OutputArchiveBase2_skipSection"
| "called MemOutput HasAttribute = ArchiveBase_hasAttribute"
| "called MemOutput CountChildren = ArchiveBase_countChildren"
| "called MemInput BeginSection = InputArchiveBase2_beginSection"
| "called MemInput EndSection = InputArchiveBase2_endSection"
| "called MemInput SkipSection = Implemented"
| "called MemInput HasAttribute = ArchiveBase_hasAttribute"
| "called MemInput CountChildren = ArchiveBase_countChildren"
| "called XmlOutput BeginSection = Nothing"
| "called XmlOutput EndSection = Nothing"
| "called XmlOutput SkipSection = OutputArchiveBase2_skipSection"
| "called XmlOutput HasAttribute = ArchiveBase_hasAttribute"
| "called XmlOutput CountChildren = ArchiveBase_countChildren"
| "called XmlInput BeginSection = InputArchiveBase2_beginSection"
| "called XmlInput EndSection = InputArchiveBase2_endSection"
| "called XmlInput SkipSection = Nothing"
| "called XmlInput HasAttribute = Implemented"
| "called XmlInput CountChildren = Implemented"

text \<open>
  The preconditions as the specification words them: section operations in their stated
  direction, capability queries on archives whose probe answers true.
\<close>

fun stated_precondition :: "archive_class \<Rightarrow> operation \<Rightarrow> bool" where
  "stated_precondition a BeginSection = (\<not> isLoader a)"
| "stated_precondition a EndSection = (\<not> isLoader a)"
| "stated_precondition a SkipSection = isLoader a"
| "stated_precondition a HasAttribute = canHaveOptionalAttributes a"
| "stated_precondition a CountChildren = canCountChildren a"

text \<open>The same, with the capability queries restricted to loaders.\<close>

fun loader_precondition :: "archive_class \<Rightarrow> operation \<Rightarrow> bool" where
  "loader_precondition a BeginSection = (\<not> isLoader a)"
| "loader_precondition a EndSection = (\<not> isLoader a)"
| "loader_precondition a SkipSection = isLoader a"
| "loader_precondition a HasAttribute = (isLoader a \<and> canHaveOptionalAttributes a)"
| "loader_precondition a CountChildren = (isLoader a \<and> canCountChildren a)"


section \<open>The front end of the output archives\<close>

text \<open>
  \<^verbatim>\<open>OutputArchiveBase<Derived>::serializeWithID\<close> brackets the work of \<^verbatim>\<open>Saver<T>\<close> with
  the concrete archive's \<^verbatim>\<open>beginTag\<close> and \<^verbatim>\<open>endTag\<close>. The concrete archive's two methods
  and the saver (\<^verbatim>\<open>serialize_core.hh\<close>, not among the sources) are parameters; each may
  fail. The three overloads with extra constructor arguments follow.
\<close>

definition OutputArchiveBase_serializeWithID ::
  "(string \<Rightarrow> 'ar \<Rightarrow> error + 'ar) \<Rightarrow> (string \<Rightarrow> 'ar \<Rightarrow> error + 'ar) \<Rightarrow>
   ('ar \<Rightarrow> 't \<Rightarrow> bool \<Rightarrow> error + 'ar) \<Rightarrow> string \<Rightarrow> 't \<Rightarrow> 'ar \<Rightarrow> error + 'ar" where
  "OutputArchiveBase_serializeWithID beginTag endTag saver tag t ar =
     (case beginTag tag ar of
        Inl err \<Rightarrow> Inl err
      | Inr ar1 \<Rightarrow>
          (case saver ar1 t True of
             Inl err \<Rightarrow> Inl err
           | Inr ar2 \<Rightarrow> endTag tag ar2))"

definition OutputArchiveBase_serializeWithID1 ::
  "(string \<Rightarrow> 'ar \<Rightarrow> error + 'ar) \<Rightarrow> (string \<Rightarrow> 'ar \<Rightarrow> error + 'ar) \<Rightarrow>
   ('ar \<Rightarrow> 't \<Rightarrow> bool \<Rightarrow> error + 'ar) \<Rightarrow> string \<Rightarrow> 't \<Rightarrow> 't1 \<Rightarrow> 'ar \<Rightarrow> error + 'ar" where
  "OutputArchiveBase_serializeWithID1 beginTag endTag saver tag t t1 ar =
     OutputArchiveBase_serializeWithID beginTag endTag saver tag t ar"

definition OutputArchiveBase_serializeWithID2 ::
  "(string \<Rightarrow> 'ar \<Rightarrow> error + 'ar) \<Rightarrow> (string \<Rightarrow> 'ar \<Rightarrow> error + 'ar) \<Rightarrow>
   ('ar \<Rightarrow> 't \<Rightarrow> bool \<Rightarrow> error + 'ar) \<Rightarrow> string \<Rightarrow> 't \<Rightarrow> 't1 \<Rightarrow> 't2 \<Rightarrow> 'ar \<Rightarrow> error + 'ar" where
  "OutputArchiveBase_serializeWithID2 beginTag endTag saver tag t t1 t2 ar =
     OutputArchiveBase_serializeWithID beginTag endTag saver tag t ar"

definition OutputArchiveBase_serializeWithID3 ::
  "(string \<Rightarrow> 'ar \<Rightarrow> error + 'ar) \<Rightarrow> (string \<Rightarrow> 'ar \<Rightarrow> error + 'ar) \<Rightarrow>
   ('ar \<Rightarrow> 't \<Rightarrow> bool \<Rightarrow> error + 'ar) \<Rightarrow> string \<Rightarrow> 't \<Rightarrow> 't1 \<Rightarrow> 't2 \<Rightarrow> 't3 \<Rightarrow> 'ar \<Rightarrow>
   error + 'ar" where
  "OutputArchiveBase_serializeWithID3 beginTag endTag saver tag t t1 t2 t3 ar =
     OutputArchiveBase_serializeWithID beginTag endTag saver tag t ar"

text \<open>\<^verbatim>\<open>ArchiveBase::beginTag\<close> and \<^verbatim>\<open>endTag\<close>, which the binary archives inherit: nothing.\<close>

definition ArchiveBase_beginTag :: "string \<Rightarrow> 'ar \<Rightarrow> error + 'ar" where
  "ArchiveBase_beginTag tag ar = Inr ar"

definition ArchiveBase_endTag :: "string \<Rightarrow> 'ar \<Rightarrow> error + 'ar" where
  "ArchiveBase_endTag tag ar = Inr ar"


section \<open>Polymorphic values on load\<close>

text \<open>
  Modelled from the spec: \<^verbatim>\<open>PolymorphicInitializerRegistry<Derived>::init\<close> is not among the
  sources. The registry is the per-base-type table from discriminators to the concrete
  types' load routines. \<^verbatim>\<open>init\<close> reads the discriminator from the archive, looks it up
  and forwards to the registered routine; an unregistered discriminator is a hard failure.
  How the archive reads the discriminator is a parameter.
\<close>

type_synonym ('ar, 't) initializer = "'ar \<Rightarrow> 't \<Rightarrow> error + ('t \<times> 'ar)"

definition PolymorphicInitializerRegistry_init ::
  "(string \<rightharpoonup> ('ar, 't) initializer) \<Rightarrow> ('ar \<Rightarrow> error + (string \<times> 'ar)) \<Rightarrow>
   string \<Rightarrow> 'ar \<Rightarrow> 't \<Rightarrow> error + ('t \<times> 'ar)" where
  "PolymorphicInitializerRegistry_init registry load_type tag ar t =
     (case load_type ar of
        Inl err \<Rightarrow> Inl err
      | Inr (type, ar1) \<Rightarrow>
          (case registry type of
             None \<Rightarrow> Inl (UnknownDiscriminator type)
           | Some initializer \<Rightarrow> initializer ar1 t))"

text \<open>\<^verbatim>\<open>InputArchiveBase<Derived>::serializePolymorphic\<close>, as in \<^verbatim>\<open>serialize.hh\<close>.\<close>

definition InputArchiveBase_serializePolymorphic ::
  "(string \<rightharpoonup> ('ar, 't) initializer) \<Rightarrow> ('ar \<Rightarrow> error + (string \<times> 'ar)) \<Rightarrow>
   string \<Rightarrow> 't \<Rightarrow> 'ar \<Rightarrow> error + ('t \<times> 'ar)" where
  "InputArchiveBase_serializePolymorphic registry load_type tag t ar =
     PolymorphicInitializerRegistry_init registry load_type tag ar t"

text \<open>A stream of strings, for running the registry: reading takes the first one.\<close>

fun next_string :: "string list \<Rightarrow> error + (string \<times> string list)" where
  "next_string [] = Inl TruncatedStream"
| "next_string (x # xs) = Inr (x, xs)"


section \<open>Object representation of \<^verbatim>\<open>unsigned\<close>\<close>

lemma le_word_le_bytes: "le_word (le_bytes w) = w"
proof (rule bit_word_eqI)
  fix n assume n: "n < LENGTH(32)"
  consider "n < 8" | "8 \<le> n" "n < 16" | "16 \<le> n" "n < 24" | "24 \<le> n"
    by linarith
  then show "bit (le_word (le_bytes w)) n = bit w n"
    using n by cases (auto simp: le_bytes_def bit_simps)
qed

lemma length_object_bytes: "length (object_bytes e w) = 4"
  by (cases e) (simp_all add: object_bytes_def le_bytes_def)

lemma object_value_object_bytes: "object_value e (object_bytes e w) = w"
  by (cases e) (simp_all add: object_bytes_def object_value_def le_word_le_bytes)

lemma sizeof_object_bytes: "sizeof (object_bytes e w) = 4"
  by (simp add: sizeof_def length_object_bytes)

section \<open>Primitive save and load on the binary backend\<close>

lemma put_buffer:
  "buffer (MemOutputArchive_put data len ar) = buffer ar @ take (unat len) data"
  by (simp add: MemOutputArchive_put_def OutputBuffer_insert_def)

lemma put_openSections:
  "openSections (MemOutputArchive_put data len ar) = openSections ar"
  by (simp add: MemOutputArchive_put_def)

lemma unat_sizeof: "length t < 2 ^ 32 \<Longrightarrow> unat (sizeof t) = length t"
  by (simp add: sizeof_def unat_of_nat)

lemma save_buffer:
  "length t < 2 ^ 32 \<Longrightarrow> buffer (MemOutputArchive_save t ar) = buffer ar @ t"
  by (simp add: MemOutputArchive_save_def put_buffer unat_sizeof)

lemma get_at:
  assumes "length pre = cursor ar" "stream ar = pre @ bs @ rest" "unat len = length bs"
  shows "MemInputArchive_get dest len ar =
           Inr (bs @ drop (length bs) dest, ar\<lparr>cursor := cursor ar + length bs\<rparr>)"
proof (cases "len = 0")
  case True
  with assms show ?thesis by (simp add: MemInputArchive_get_def)
next
  case False
  with assms show ?thesis
    by (simp add: MemInputArchive_get_def InputBuffer_read_def)
qed

lemma skipSection_eq:
  "MemInputArchive_skipSection e skip ar =
     (if cursor ar + 4 \<le> length (stream ar)
      then Inr (ar\<lparr>cursor := cursor ar + 4 +
                 (if skip then unat (object_value e (take 4 (drop (cursor ar) (stream ar)))) else 0)\<rparr>)
      else Inl TruncatedStream)"
  by (simp add: MemInputArchive_skipSection_def MemInputArchive_load_def MemInputArchive_get_def
      InputBuffer_read_def InputBuffer_skip_def sizeof_object_bytes length_object_bytes)

text \<open>
  Claim C9. On the binary backend \<^verbatim>\<open>skipSection\<close> reads the four-byte length prefix
  whatever its argument is: when four bytes are available the cursor moves past the prefix,
  to the first byte of the section content, and with \<^verbatim>\<open>skip = true\<close> it moves on by the
  stored length; when they are not, the call fails for both values of the argument.
  \<^verbatim>\<open>beginSection\<close> always writes that prefix, so every saved section boundary needs its
  \<^verbatim>\<open>skipSection\<close> call on load.
\<close>

theorem skipSection_consumes_prefix:
  "MemInputArchive_skipSection e skip ar =
     (if cursor ar + 4 \<le> length (stream ar)
      then Inr (ar\<lparr>cursor := cursor ar + 4 +
                 (if skip then unat (object_value e (take 4 (drop (cursor ar) (stream ar)))) else 0)\<rparr>)
      else Inl TruncatedStream)
   \<and> buffer (MemOutputArchive_beginSection e out) = buffer out @ object_bytes e 0"
  by (simp add: skipSection_eq MemOutputArchive_beginSection_def MemOutputArchive_save_def
      put_buffer sizeof_object_bytes length_object_bytes Let_def)

text \<open>
  Claim C5. \<^verbatim>\<open>save(t)\<close> appends exactly the \<^verbatim>\<open>sizeof(t)\<close> bytes of \<^verbatim>\<open>t\<close>, and
  \<^verbatim>\<open>serialize_blob\<close> exactly \<^verbatim>\<open>len\<close> bytes; loading at the position where they were
  written, into a destination of the same size or with the same \<^verbatim>\<open>len\<close>, overwrites the
  destination with exactly the saved bytes and moves the cursor by that many bytes.
\<close>

theorem mem_load_after_save_identity:
  assumes "length t < 2 ^ 32" and "length t' = length t" and "unat len \<le> length data"
  shows "buffer (MemOutputArchive_save t out) = buffer out @ t
       \<and> length (buffer (MemOutputArchive_save t out)) = length (buffer out) + unat (sizeof t)
       \<and> MemInputArchive_load t'
            \<lparr>stream = buffer (MemOutputArchive_save t out) @ rest, cursor = length (buffer out)\<rparr>
          = Inr (t, \<lparr>stream = buffer (MemOutputArchive_save t out) @ rest,
                     cursor = length (buffer out) + unat (sizeof t)\<rparr>)
       \<and> buffer (MemOutputArchive_serialize_blob tag data len out) = buffer out @ take (unat len) data
       \<and> length (buffer (MemOutputArchive_serialize_blob tag data len out))
          = length (buffer out) + unat len
       \<and> MemInputArchive_serialize_blob tag dest len
            \<lparr>stream = buffer (MemOutputArchive_serialize_blob tag data len out) @ rest,
             cursor = length (buffer out)\<rparr>
          = Inr (take (unat len) data @ drop (unat len) dest,
                 \<lparr>stream = buffer (MemOutputArchive_serialize_blob tag data len out) @ rest,
                  cursor = length (buffer out) + unat len\<rparr>)"
proof -
  have s: "buffer (MemOutputArchive_save t out) = buffer out @ t"
    using assms(1) by (rule save_buffer)
  have b: "buffer (MemOutputArchive_serialize_blob tag data len out) = buffer out @ take (unat len) data"
    by (simp add: MemOutputArchive_serialize_blob_def put_buffer)
  have l: "MemInputArchive_load t'
            \<lparr>stream = (buffer out @ t) @ rest, cursor = length (buffer out)\<rparr>
          = Inr (t, \<lparr>stream = (buffer out @ t) @ rest, cursor = length (buffer out) + length t\<rparr>)"
    unfolding MemInputArchive_load_def
    using get_at [of "buffer out" "\<lparr>stream = (buffer out @ t) @ rest, cursor = length (buffer out)\<rparr>"
        t rest "sizeof t'" t'] assms(1,2)
    by (simp add: sizeof_def unat_of_nat)
  have g: "MemInputArchive_serialize_blob tag dest len
            \<lparr>stream = (buffer out @ take (unat len) data) @ rest, cursor = length (buffer out)\<rparr>
          = Inr (take (unat len) data @ drop (unat len) dest,
                 \<lparr>stream = (buffer out @ take (unat len) data) @ rest,
                  cursor = length (buffer out) + unat len\<rparr>)"
    unfolding MemInputArchive_serialize_blob_def
    using get_at [of "buffer out"
        "\<lparr>stream = (buffer out @ take (unat len) data) @ rest, cursor = length (buffer out)\<rparr>"
        "take (unat len) data" rest len dest] assms(3)
    by simp
  show ?thesis
    using s b l g assms by (simp add: unat_sizeof)
qed

theorem mem_load_after_save_identity_witness:
  "length [1, 2 :: byte] < 2 ^ 32 \<and> length [0, 0 :: byte] = length [1, 2 :: byte]
   \<and> unat (2 :: unsigned) \<le> length [5, 6, 7 :: byte]
   \<and> buffer (MemOutputArchive_save [1, 2] \<lparr>buffer = [9], openSections = []\<rparr>) = [9, 1, 2]
   \<and> MemInputArchive_load [0, 0] \<lparr>stream = [9, 1, 2, 4], cursor = 1\<rparr>
       = Inr ([1, 2], \<lparr>stream = [9, 1, 2, 4], cursor = 3\<rparr>)
   \<and> buffer (MemOutputArchive_serialize_blob ''blob'' [5, 6, 7] 2 \<lparr>buffer = [9], openSections = []\<rparr>)
       = [9, 5, 6]
   \<and> MemInputArchive_serialize_blob ''blob'' [0, 0, 0] 2 \<lparr>stream = [9, 5, 6, 4], cursor = 1\<rparr>
       = Inr ([5, 6, 0], \<lparr>stream = [9, 5, 6, 4], cursor = 3\<rparr>)"
  using mem_load_after_save_identity [of "[1, 2]" "[0, 0]" 2 "[5, 6, 7]"
      "\<lparr>buffer = [9], openSections = []\<rparr>" "[4]" "''blob''" "[0, 0, 0]"]
  by (simp add: sizeof_def MemOutputArchive_save_def MemOutputArchive_serialize_blob_def
      MemOutputArchive_put_def OutputBuffer_insert_def)


section \<open>Sections of the binary stream\<close>

lemma wires_append: "wires e (xs @ ys) = wires e xs @ wires e ys"
  by (induction xs) simp_all

lemma beginSection_eq:
  "MemOutputArchive_beginSection e ar =
     ar\<lparr>buffer := buffer ar @ object_bytes e 0,
        openSections := openSections ar @ [word_of_nat (length (buffer ar) + 4)]\<rparr>"
  by (simp add: MemOutputArchive_beginSection_def MemOutputArchive_save_def
      MemOutputArchive_put_def OutputBuffer_insert_def OutputBuffer_getPosition_def
      sizeof_object_bytes length_object_bytes Let_def)

lemma endSection_patch:
  assumes "length b + 4 + length body < 2 ^ 32" and "length ph = 4"
    and "buffer ar = b @ ph @ body"
    and "openSections ar = os @ [word_of_nat (length b) + 4]"
  shows "MemOutputArchive_endSection e ar
         = Inr (ar\<lparr>openSections := os,
                   buffer := b @ object_bytes e (word_of_nat (length body)) @ body\<rparr>)"
proof -
  have "unat (word_of_nat (length b) :: unsigned) = length b"
    using assms(1) by (simp add: unat_of_nat)
  then have pos: "unat (word_of_nat (length b) + 4 - sizeof_unsigned :: unsigned) = length b"
    by (simp add: sizeof_unsigned_def)
  have len: "unat sizeof_unsigned = 4"
    by (simp add: sizeof_unsigned_def)
  have skip: "OutputBuffer_getPosition (b @ ph @ body) - (word_of_nat (length b) + 4)
                = (word_of_nat (length body) :: unsigned)"
    using assms(2) by (simp add: OutputBuffer_getPosition_def)
  show ?thesis
    using assms(2)
    by (simp add: MemOutputArchive_endSection_def Let_def assms(3,4) skip
        OutputBuffer_insertAt_def pos len length_object_bytes)
qed

lemma save_layout:
  "length (buffer ar) + length (wire e i) < 2 ^ 32 \<Longrightarrow>
     save_item e i ar = Inr (ar\<lparr>buffer := buffer ar @ wire e i\<rparr>)"
  "length (buffer ar) + length (wires e is) < 2 ^ 32 \<Longrightarrow>
     save_items e is ar = Inr (ar\<lparr>buffer := buffer ar @ wires e is\<rparr>)"
proof (induction e i ar and e "is" ar rule: save_item_save_items.induct)
  case (1 e t ar)
  then have "length t < 2 ^ 32" by simp
  then have "buffer (MemOutputArchive_save t ar) = buffer ar @ t"
    by (rule save_buffer)
  moreover have "openSections (MemOutputArchive_save t ar) = openSections ar"
    by (simp add: MemOutputArchive_save_def put_openSections)
  ultimately show ?case by simp
next
  case (2 e body ar)
  let ?b = "MemOutputArchive_beginSection e ar"
  have n: "length (buffer ar) + 4 + length (wires e body) < 2 ^ 32"
    using "2.prems" by (simp add: length_object_bytes)
  then have "save_items e body ?b = Inr (?b\<lparr>buffer := buffer ?b @ wires e body\<rparr>)"
    by (intro "2.IH") (simp add: beginSection_eq length_object_bytes)
  moreover have "MemOutputArchive_endSection e (?b\<lparr>buffer := buffer ?b @ wires e body\<rparr>)
      = Inr (ar\<lparr>buffer := buffer ar @ wire e (Section body)\<rparr>)"
    using endSection_patch [OF n length_object_bytes, of "?b\<lparr>buffer := buffer ?b @ wires e body\<rparr>" e 0 "openSections ar" e]
    by (simp add: beginSection_eq)
  ultimately show ?case by simp
next
  case (3 e ar)
  then show ?case by simp
next
  case (4 e i "is" ar)
  then show ?case by simp
qed

lemma skipSection_at:
  assumes "stream ar = pre @ wire e (Section body) @ rest" and "cursor ar = length pre"
    and "length (wires e body) < 2 ^ 32"
  shows "MemInputArchive_skipSection e skip ar =
           Inr (ar\<lparr>cursor := cursor ar + 4 + (if skip then length (wires e body) else 0)\<rparr>)"
proof -
  have "take 4 (drop (cursor ar) (stream ar)) = object_bytes e (word_of_nat (length (wires e body)))"
    using assms(1,2) by (simp add: length_object_bytes)
  moreover have "unat (word_of_nat (length (wires e body)) :: unsigned) = length (wires e body)"
    using assms(3) by (simp add: unat_of_nat)
  moreover have "cursor ar + 4 \<le> length (stream ar)"
    using assms(1,2) by (simp add: length_object_bytes)
  ultimately show ?thesis
    by (simp add: skipSection_eq object_value_object_bytes)
qed

lemma load_prim_at:
  assumes "stream ar = pre @ t @ rest" and "cursor ar = length pre" and "length t < 2 ^ 32"
  shows "MemInputArchive_load (replicate (length t) 0) ar
           = Inr (t, ar\<lparr>cursor := cursor ar + length t\<rparr>)"
proof -
  have "unat (sizeof (replicate (length t) (0 :: byte))) = length t"
    using assms(3) by (simp add: sizeof_def unat_of_nat)
  then show ?thesis
    unfolding MemInputArchive_load_def
    using get_at [of pre ar t rest "sizeof (replicate (length t) (0 :: byte))"
        "replicate (length t) 0"] assms(1,2)
    by simp
qed

lemma parse_layout:
  "stream ar = pre @ wire e i @ rest \<Longrightarrow> cursor ar = length pre \<Longrightarrow>
   length (wire e i) < 2 ^ 32 \<Longrightarrow>
     load_plan e (parse i) ar = Inr (prims i, ar\<lparr>cursor := cursor ar + length (wire e i)\<rparr>)"
  "stream ar = pre @ wires e is @ rest \<Longrightarrow> cursor ar = length pre \<Longrightarrow>
   length (wires e is) < 2 ^ 32 \<Longrightarrow>
     load_plans e (map parse is) ar
       = Inr (concat (map prims is), ar\<lparr>cursor := cursor ar + length (wires e is)\<rparr>)"
proof (induction e i and e "is" arbitrary: ar pre rest and ar pre rest rule: wire_wires.induct)
  case (1 e t)
  then show ?case
    using load_prim_at [of ar pre t rest] by simp
next
  case (2 e body)
  let ?n = "length (wires e body)"
  let ?ph = "object_bytes e (word_of_nat ?n)"
  let ?ar1 = "ar\<lparr>cursor := cursor ar + 4\<rparr>"
  have n: "?n < 2 ^ 32"
    using "2.prems"(3) by simp
  have sk: "MemInputArchive_skipSection e False ar = Inr ?ar1"
    using skipSection_at [OF "2.prems"(1,2) n, of False] by simp
  have "load_plans e (map parse body) ?ar1
          = Inr (concat (map prims body), ?ar1\<lparr>cursor := cursor ?ar1 + ?n\<rparr>)"
    using "2.prems"(1,2) n
    by (intro "2.IH" [where pre = "pre @ ?ph" and rest = rest])
       (simp_all add: length_object_bytes)
  with sk show ?case
    by (simp add: length_object_bytes)
next
  case (3 e)
  then show ?case by simp
next
  case (4 e i "is")
  let ?ar1 = "ar\<lparr>cursor := cursor ar + length (wire e i)\<rparr>"
  have a: "load_plan e (parse i) ar = Inr (prims i, ?ar1)"
    using "4.prems" by (intro "4.IH"(1) [where pre = pre and rest = "wires e is @ rest"]) simp_all
  have b: "load_plans e (map parse is) ?ar1
          = Inr (concat (map prims is), ?ar1\<lparr>cursor := cursor ?ar1 + length (wires e is)\<rparr>)"
    using "4.prems"
    by (intro "4.IH"(2) [where pre = "pre @ wire e i" and rest = rest]) simp_all
  from a b show ?case
    by (simp add: add.assoc)
qed


lemma load_plans_append:
  "load_plans e (ps @ qs) ar =
     (case load_plans e ps ar of
        Inl err \<Rightarrow> Inl err
      | Inr (vs, ar1) \<Rightarrow>
          (case load_plans e qs ar1 of
             Inl err \<Rightarrow> Inl err
           | Inr (ws, ar2) \<Rightarrow> Inr (vs @ ws, ar2)))"
  by (induction ps arbitrary: ar) (auto split: sum.splits)

text \<open>
  Claim C3. \<^verbatim>\<open>beginSection\<close> appends a zero placeholder and records the offset just past
  it; the calls for the content append the bytes \<^verbatim>\<open>wires e body\<close> and leave the open
  sections as they were; the matching \<^verbatim>\<open>endSection\<close> overwrites the placeholder with the
  number of those bytes. On load, at the section's position, \<^verbatim>\<open>skipSection(true)\<close> moves the
  cursor to the first byte after the section. A pass that skips the section and a pass that
  calls \<^verbatim>\<open>skipSection(false)\<close> and parses it in full load the same values for the
  primitives before and after the section and end at the same cursor. The saved bytes are
  assumed to fit the 32-bit offsets of the archive.
\<close>

theorem section_skip_equivalence:
  assumes size: "length (buffer ar) + length (wires e (pre @ Section body # post)) < 2 ^ 32"
  shows "MemOutputArchive_beginSection e ar
           = ar\<lparr>buffer := buffer ar @ object_bytes e 0,
                openSections := openSections ar @
                  [OutputBuffer_getPosition (buffer ar @ object_bytes e 0)]\<rparr>
       \<and> save_items e body (MemOutputArchive_beginSection e ar)
           = Inr ((MemOutputArchive_beginSection e ar)
                   \<lparr>buffer := buffer ar @ object_bytes e 0 @ wires e body\<rparr>)
       \<and> MemOutputArchive_endSection e ((MemOutputArchive_beginSection e ar)
             \<lparr>buffer := buffer ar @ object_bytes e 0 @ wires e body\<rparr>)
           = Inr (ar\<lparr>buffer := buffer ar
                    @ object_bytes e (word_of_nat (length (wires e body))) @ wires e body\<rparr>)
       \<and> save_items e (pre @ Section body # post) ar
           = Inr (ar\<lparr>buffer := buffer ar @ wires e pre
                    @ object_bytes e (word_of_nat (length (wires e body))) @ wires e body
                    @ wires e post\<rparr>)
       \<and> MemInputArchive_skipSection e True
            \<lparr>stream = buffer ar @ wires e (pre @ Section body # post) @ rest,
             cursor = length (buffer ar @ wires e pre)\<rparr>
           = Inr \<lparr>stream = buffer ar @ wires e (pre @ Section body # post) @ rest,
                  cursor = length (buffer ar @ wires e pre) + 4 + length (wires e body)\<rparr>
       \<and> load_plans e (map parse pre @ Skip True ps # map parse post)
            \<lparr>stream = buffer ar @ wires e (pre @ Section body # post) @ rest,
             cursor = length (buffer ar)\<rparr>
           = Inr (concat (map prims pre) @ concat (map prims post),
                  \<lparr>stream = buffer ar @ wires e (pre @ Section body # post) @ rest,
                   cursor = length (buffer ar @ wires e (pre @ Section body # post))\<rparr>)
       \<and> load_plans e (map parse pre @ Skip False (map parse body) # map parse post)
            \<lparr>stream = buffer ar @ wires e (pre @ Section body # post) @ rest,
             cursor = length (buffer ar)\<rparr>
           = Inr (concat (map prims pre) @ concat (map prims body) @ concat (map prims post),
                  \<lparr>stream = buffer ar @ wires e (pre @ Section body # post) @ rest,
                   cursor = length (buffer ar @ wires e (pre @ Section body # post))\<rparr>)"
proof -
  let ?w = "wires e (pre @ Section body # post)"
  let ?s = "buffer ar @ ?w @ rest"
  let ?n = "length (wires e body)"
  let ?b = "MemOutputArchive_beginSection e ar"
  have w: "?w = wires e pre @ object_bytes e (word_of_nat ?n) @ wires e body @ wires e post"
    by (simp add: wires_append)
  have n: "length (buffer ar) + 4 + ?n < 2 ^ 32" and n': "?n < 2 ^ 32"
    and npre: "length (wires e pre) < 2 ^ 32" and npost: "length (wires e post) < 2 ^ 32"
    using size by (simp_all add: w length_object_bytes)
  have c1: "?b = ar\<lparr>buffer := buffer ar @ object_bytes e 0,
                openSections := openSections ar @
                  [OutputBuffer_getPosition (buffer ar @ object_bytes e 0)]\<rparr>"
    by (simp add: beginSection_eq OutputBuffer_getPosition_def length_object_bytes)
  have c2: "save_items e body ?b = Inr (?b\<lparr>buffer := buffer ar @ object_bytes e 0 @ wires e body\<rparr>)"
    using save_layout(2) [of ?b e body] n
    by (simp add: beginSection_eq length_object_bytes)
  have c3: "MemOutputArchive_endSection e (?b\<lparr>buffer := buffer ar @ object_bytes e 0 @ wires e body\<rparr>)
           = Inr (ar\<lparr>buffer := buffer ar @ object_bytes e (word_of_nat ?n) @ wires e body\<rparr>)"
    using endSection_patch [OF n length_object_bytes,
        of "?b\<lparr>buffer := buffer ar @ object_bytes e 0 @ wires e body\<rparr>" e 0 "openSections ar" e]
    by (simp add: beginSection_eq)
  have c4: "save_items e (pre @ Section body # post) ar = Inr (ar\<lparr>buffer := buffer ar @ ?w\<rparr>)"
    using size by (rule save_layout(2))
  let ?mid = "\<lparr>stream = ?s, cursor = length (buffer ar @ wires e pre)\<rparr>"
  let ?aft = "\<lparr>stream = ?s, cursor = length (buffer ar @ wires e pre) + 4 + ?n\<rparr>"
  have st: "?s = (buffer ar @ wires e pre) @ wire e (Section body) @ (wires e post @ rest)"
    by (simp add: wires_append)
  have sk: "MemInputArchive_skipSection e skip ?mid
              = Inr (?mid\<lparr>cursor := cursor ?mid + 4 + (if skip then ?n else 0)\<rparr>)" for skip
    by (rule skipSection_at [where pre = "buffer ar @ wires e pre" and rest = "wires e post @ rest"])
       (use n' in \<open>simp_all add: wires_append\<close>)
  have c5: "MemInputArchive_skipSection e True ?mid = Inr ?aft"
    using sk [of True] by simp
  have lpre: "load_plans e (map parse pre) \<lparr>stream = ?s, cursor = length (buffer ar)\<rparr>
                = Inr (concat (map prims pre), ?mid)"
    using parse_layout(2) [of "\<lparr>stream = ?s, cursor = length (buffer ar)\<rparr>" "buffer ar" e pre
        "wire e (Section body) @ wires e post @ rest"] npre
    by (simp add: wires_append)
  have lbody: "load_plans e (map parse body) \<lparr>stream = ?s, cursor = length (buffer ar @ wires e pre) + 4\<rparr>
                = Inr (concat (map prims body), ?aft)"
    using parse_layout(2) [of "\<lparr>stream = ?s, cursor = length (buffer ar @ wires e pre) + 4\<rparr>"
        "buffer ar @ wires e pre @ object_bytes e (word_of_nat ?n)" e body "wires e post @ rest"] n'
    by (simp add: wires_append length_object_bytes)
  have lpost: "load_plans e (map parse post) ?aft
                = Inr (concat (map prims post), \<lparr>stream = ?s, cursor = length (buffer ar @ ?w)\<rparr>)"
    using parse_layout(2) [of ?aft
        "buffer ar @ wires e pre @ object_bytes e (word_of_nat ?n) @ wires e body" e post rest] npost
    by (simp add: wires_append length_object_bytes)
  have c6: "load_plans e (map parse pre @ Skip True ps # map parse post)
              \<lparr>stream = ?s, cursor = length (buffer ar)\<rparr>
           = Inr (concat (map prims pre) @ concat (map prims post),
                  \<lparr>stream = ?s, cursor = length (buffer ar @ ?w)\<rparr>)"
    using lpre c5 lpost by (simp add: load_plans_append)
  have c7: "load_plans e (map parse pre @ Skip False (map parse body) # map parse post)
              \<lparr>stream = ?s, cursor = length (buffer ar)\<rparr>
           = Inr (concat (map prims pre) @ concat (map prims body) @ concat (map prims post),
                  \<lparr>stream = ?s, cursor = length (buffer ar @ ?w)\<rparr>)"
    using lpre sk [of False] lbody lpost by (simp add: load_plans_append)
  from c4 have c4': "save_items e (pre @ Section body # post) ar
           = Inr (ar\<lparr>buffer := buffer ar @ wires e pre
                    @ object_bytes e (word_of_nat ?n) @ wires e body @ wires e post\<rparr>)"
    by (simp only: w)
  show ?thesis
    using c1 c2 c3 c4' c5 c6 c7 by (intro conjI)
qed


theorem section_skip_equivalence_witness:
  "length (buffer \<lparr>buffer = [], openSections = []\<rparr>)
     + length (wires LittleEndian
         ([Prim [1]] @ Section [Prim [2, 3], Section [Prim [4]]] # [Prim [5]])) < 2 ^ 32
   \<and> save_items LittleEndian [Prim [1], Section [Prim [2, 3], Section [Prim [4]]], Prim [5]]
         \<lparr>buffer = [], openSections = []\<rparr>
       = Inr \<lparr>buffer = [1, 7, 0, 0, 0, 2, 3, 1, 0, 0, 0, 4, 5], openSections = []\<rparr>
   \<and> load_plans LittleEndian [Load [0], Skip True [], Load [0]]
         \<lparr>stream = [1, 7, 0, 0, 0, 2, 3, 1, 0, 0, 0, 4, 5], cursor = 0\<rparr>
       = Inr ([[1], [5]], \<lparr>stream = [1, 7, 0, 0, 0, 2, 3, 1, 0, 0, 0, 4, 5], cursor = 13\<rparr>)
   \<and> load_plans LittleEndian [Load [0], Skip False [Load [0, 0], Skip False [Load [0]]], Load [0]]
         \<lparr>stream = [1, 7, 0, 0, 0, 2, 3, 1, 0, 0, 0, 4, 5], cursor = 0\<rparr>
       = Inr ([[1], [2, 3], [4], [5]],
              \<lparr>stream = [1, 7, 0, 0, 0, 2, 3, 1, 0, 0, 0, 4, 5], cursor = 13\<rparr>)"
  using section_skip_equivalence [of "\<lparr>buffer = [], openSections = []\<rparr>" LittleEndian
      "[Prim [1]]" "[Prim [2, 3], Section [Prim [4]]]" "[Prim [5]]" "[]" "[]"]
  by (simp add: object_bytes_def le_bytes_def)


section \<open>Shared-ownership resolution\<close>

lemma release_wrappers: "wrappers (release old h) = wrappers h"
  by (simp add: release_def split: option.splits)

lemma release_next_counter: "next_counter (release old h) = next_counter h"
  by (simp add: release_def split: option.splits)


lemma resetSharedPtr_null:
  "resetSharedPtr s NULL st = (fst st, shared_ptr_reset s (snd st))"
  by (simp add: resetSharedPtr_def)





lemma resetSharedPtr_null_absent:
  "sharedPtrMap (fst st) NULL = None \<Longrightarrow> sharedPtrMap (fst (resetSharedPtr s r st)) NULL = None"
  by (auto simp: resetSharedPtr_def Let_def split: option.splits)

lemma load_pass_null_absent:
  "sharedPtrMap (fst st) NULL = None \<Longrightarrow> sharedPtrMap (fst (load_pass calls st)) NULL = None"
proof (induction calls arbitrary: st)
  case Nil
  then show ?case by simp
next
  case (Cons call calls)
  obtain s r where call: "call = (s, r)" by (cases call)
  from Cons.prems have "sharedPtrMap (fst (resetSharedPtr s r st)) NULL = None"
    by (rule resetSharedPtr_null_absent)
  then show ?case
    unfolding call by (simp add: Cons.IH)
qed









lemma heap_ok_release: "heap_ok h \<Longrightarrow> heap_ok (release old h)"
  by (simp add: heap_ok_def release_wrappers release_next_counter)

lemma heap_ok_resetSharedPtr:
  "heap_ok (snd st) \<Longrightarrow> heap_ok (snd (resetSharedPtr s r st))"
  unfolding heap_ok_def resetSharedPtr_def Let_def
  by (auto simp: shared_ptr_reset_def shared_ptr_reset_to_def shared_ptr_assign_def Let_def
      release_wrappers release_next_counter empty_shared_ptr_def less_Suc_eq
      split: option.splits if_splits)
















text \<open>
  Claim C10. With a null raw handle \<^verbatim>\<open>resetSharedPtr\<close> resets the destination wrapper to
  empty and leaves the shared-ownership table as it was; no pass ever enters \<^verbatim>\<open>NULL\<close> in
  the table.
\<close>

theorem resetSharedPtr_null_empties:
  "resetSharedPtr s NULL (ar, h) = (ar, shared_ptr_reset s h)
   \<and> wrappers (snd (resetSharedPtr s NULL (ar, h))) s = empty_shared_ptr
   \<and> use_count (snd (resetSharedPtr s NULL (ar, h))) s = 0
   \<and> sharedPtrMap (fst (resetSharedPtr s NULL (ar, h))) = sharedPtrMap ar
   \<and> (sharedPtrMap ar NULL = None \<longrightarrow>
        sharedPtrMap (fst (load_pass calls (ar, h))) NULL = None)"
  using load_pass_null_absent [of "(ar, h)" calls]
  by (simp add: resetSharedPtr_null shared_ptr_reset_def release_wrappers use_count_def
      empty_shared_ptr_def)

theorem resetSharedPtr_null_empties_witness:
  "sharedPtrMap \<lparr>pointerIdMap = Map.empty, sharedPtrMap = Map.empty\<rparr> NULL = None
   \<and> sharedPtrMap (fst (load_pass [(100, NULL), (200, 7), (300, NULL)]
        (\<lparr>pointerIdMap = Map.empty, sharedPtrMap = Map.empty\<rparr>, empty_heap))) NULL = None
   \<and> wrappers (snd (resetSharedPtr 100 NULL
        (\<lparr>pointerIdMap = Map.empty, sharedPtrMap = Map.empty\<rparr>, empty_heap))) 100
       = empty_shared_ptr"
proof -
  have absent: "sharedPtrMap \<lparr>pointerIdMap = Map.empty, sharedPtrMap = Map.empty\<rparr> NULL = None"
    by simp
  show ?thesis
    using resetSharedPtr_null_empties [of 100
        "\<lparr>pointerIdMap = Map.empty, sharedPtrMap = Map.empty\<rparr>" empty_heap
        "[(100, NULL), (200, 7), (300, NULL)]"] absent
    by blast
qed


section \<open>Identity keys\<close>

text \<open>
  Claim C2. \<^verbatim>\<open>generateId\<close> and \<^verbatim>\<open>getId\<close> derive the key the same way: from the pointer alone
  for a polymorphic type, from the pointer and the type otherwise. So \<^verbatim>\<open>getId\<close> after
  \<^verbatim>\<open>generateId\<close> returns the generated ID, also through another polymorphic static
  type; and two non-polymorphic types at one address receive different IDs, each found
  again under its own type.
\<close>

theorem identity_keys_agree:
  "getId T p (snd (generateId T p ar)) = fst (generateId T p ar)
   \<and> (is_polymorphic T \<longrightarrow>
         generateId T p ar = generateID1 p ar \<and> getId T p ar = getID1 p ar)
   \<and> (\<not> is_polymorphic T \<longrightarrow>
         generateId T p ar = generateID2 p (typeid T) ar \<and> getId T p ar = getID2 p (typeid T) ar)
   \<and> (is_polymorphic T \<and> is_polymorphic T' \<longrightarrow>
         getId T' p (snd (generateId T p ar)) = fst (generateId T p ar))
   \<and> (\<not> is_polymorphic T \<and> \<not> is_polymorphic T' \<and> typeid T \<noteq> typeid T' \<longrightarrow>
         fst (generateId T p ar) \<noteq> fst (generateId T' p (snd (generateId T p ar)))
       \<and> getId T p (snd (generateId T' p (snd (generateId T p ar)))) = fst (generateId T p ar)
       \<and> getId T' p (snd (generateId T' p (snd (generateId T p ar))))
           = fst (generateId T' p (snd (generateId T p ar))))"
  by (simp add: generateId_def getId_def generateID1_def generateID2_def getID1_def getID2_def
      Let_def)

theorem identity_keys_agree_witness:
  "\<not> is_polymorphic \<lparr>typeid = 1, is_polymorphic = False\<rparr>
   \<and> \<not> is_polymorphic \<lparr>typeid = 2, is_polymorphic = False\<rparr>
   \<and> typeid \<lparr>typeid = 1, is_polymorphic = False\<rparr> \<noteq> typeid \<lparr>typeid = 2, is_polymorphic = False\<rparr>
   \<and> is_polymorphic \<lparr>typeid = 3, is_polymorphic = True\<rparr>
   \<and> is_polymorphic \<lparr>typeid = 4, is_polymorphic = True\<rparr>
   \<and> fst (generateId \<lparr>typeid = 1, is_polymorphic = False\<rparr> 4096 OutputArchiveBase2_new) = 1
   \<and> fst (generateId \<lparr>typeid = 2, is_polymorphic = False\<rparr> 4096
        (snd (generateId \<lparr>typeid = 1, is_polymorphic = False\<rparr> 4096 OutputArchiveBase2_new))) = 2
   \<and> getId \<lparr>typeid = 1, is_polymorphic = False\<rparr> 4096
        (snd (generateId \<lparr>typeid = 2, is_polymorphic = False\<rparr> 4096
          (snd (generateId \<lparr>typeid = 1, is_polymorphic = False\<rparr> 4096 OutputArchiveBase2_new)))) = 1
   \<and> getId \<lparr>typeid = 4, is_polymorphic = True\<rparr> 4096
        (snd (generateId \<lparr>typeid = 3, is_polymorphic = True\<rparr> 4096 OutputArchiveBase2_new)) = 1"
  using identity_keys_agree [of "\<lparr>typeid = 1, is_polymorphic = False\<rparr>" 4096 OutputArchiveBase2_new
      "\<lparr>typeid = 2, is_polymorphic = False\<rparr>"]
    identity_keys_agree [of "\<lparr>typeid = 3, is_polymorphic = True\<rparr>" 4096 OutputArchiveBase2_new
      "\<lparr>typeid = 4, is_polymorphic = True\<rparr>"]
  by (simp add: generateId_def generateID1_def generateID2_def OutputArchiveBase2_new_def Let_def)


section \<open>Probes, section operations and capability queries by archive class\<close>

lemmas probe_defs =
  ArchiveBase_needVersion_def ArchiveBase_translateEnumToString_def
  ArchiveBase_canHaveOptionalAttributes_def ArchiveBase_canCountChildren_def
  OutputArchiveBase2_isLoader_def InputArchiveBase2_isLoader_def

lemmas body_defs =
  ArchiveBase_hasAttribute_def ArchiveBase_countChildren_def OutputArchiveBase2_skipSection_def
  InputArchiveBase2_beginSection_def InputArchiveBase2_endSection_def

text \<open>
  Claim C7. The capability probes are constants of the archive class: \<^verbatim>\<open>needVersion\<close> is
  false on the two binary archives and true on the two portable ones; the other three
  probes are true on the portable archives and have the inherited default, false, on the
  binary ones; \<^verbatim>\<open>isLoader\<close> is true exactly on the two input archives.
\<close>

theorem capability_probes:
  "needVersion MemOutput = False \<and> needVersion MemInput = False
   \<and> needVersion XmlOutput = True \<and> needVersion XmlInput = True
   \<and> translateEnumToString XmlOutput = True \<and> translateEnumToString XmlInput = True
   \<and> canHaveOptionalAttributes XmlOutput = True \<and> canHaveOptionalAttributes XmlInput = True
   \<and> canCountChildren XmlOutput = True \<and> canCountChildren XmlInput = True
   \<and> translateEnumToString MemOutput = ArchiveBase_translateEnumToString
   \<and> translateEnumToString MemInput = ArchiveBase_translateEnumToString
   \<and> ArchiveBase_translateEnumToString = False
   \<and> canHaveOptionalAttributes MemOutput = ArchiveBase_canHaveOptionalAttributes
   \<and> canHaveOptionalAttributes MemInput = ArchiveBase_canHaveOptionalAttributes
   \<and> ArchiveBase_canHaveOptionalAttributes = False
   \<and> canCountChildren MemOutput = ArchiveBase_canCountChildren
   \<and> canCountChildren MemInput = ArchiveBase_canCountChildren
   \<and> ArchiveBase_canCountChildren = False
   \<and> isLoader a = (a = MemInput \<or> a = XmlInput)"
  by (cases a) (simp_all add: probe_defs)

text \<open>
  Claim C8, as stated, fails on the portable output archive: its probes
  \<^verbatim>\<open>canHaveOptionalAttributes\<close> and \<^verbatim>\<open>canCountChildren\<close> answer true, it declares neither
  \<^verbatim>\<open>hasAttribute\<close> nor \<^verbatim>\<open>countChildren\<close>, and so both calls reach the \<^verbatim>\<open>assert(false)\<close>
  of \<^verbatim>\<open>ArchiveBase\<close> although the stated precondition holds.
\<close>

theorem assert_reachable_on_XmlOutput:
  "stated_precondition XmlOutput HasAttribute \<and> called XmlOutput HasAttribute = AssertFalse
   \<and> stated_precondition XmlOutput CountChildren \<and> called XmlOutput CountChildren = AssertFalse"
  by (simp add: body_defs)

text \<open>
  Claim C8, amended. \<^verbatim>\<open>skipSection\<close> on an output archive, \<^verbatim>\<open>beginSection\<close> and
  \<^verbatim>\<open>endSection\<close> on an input archive, and \<^verbatim>\<open>hasAttribute\<close> and \<^verbatim>\<open>countChildren\<close> on an
  archive whose probe is false or that is not a loader, reach an \<^verbatim>\<open>assert(false)\<close>. A call
  reaches an \<^verbatim>\<open>assert(false)\<close> exactly when it breaks the precondition that section
  operations are used in their stated direction and the two queries only on loaders whose
  probe is true.
\<close>

theorem assert_branches:
  "(\<not> isLoader a \<longrightarrow> called a SkipSection = AssertFalse)
   \<and> (isLoader a \<longrightarrow> called a BeginSection = AssertFalse \<and> called a EndSection = AssertFalse)
   \<and> (\<not> canHaveOptionalAttributes a \<longrightarrow> called a HasAttribute = AssertFalse)
   \<and> (\<not> canCountChildren a \<longrightarrow> called a CountChildren = AssertFalse)
   \<and> (\<not> isLoader a \<longrightarrow> called a HasAttribute = AssertFalse \<and> called a CountChildren = AssertFalse)
   \<and> (called a m = AssertFalse) = (\<not> loader_precondition a m)"
  by (cases a; cases m) (simp_all add: probe_defs body_defs)

theorem assert_branches_witness:
  "\<not> isLoader MemOutput \<and> called MemOutput SkipSection = AssertFalse
   \<and> isLoader XmlInput \<and> called XmlInput BeginSection = AssertFalse
   \<and> \<not> canHaveOptionalAttributes MemInput \<and> called MemInput HasAttribute = AssertFalse
   \<and> \<not> canCountChildren MemInput \<and> called MemInput CountChildren = AssertFalse
   \<and> loader_precondition XmlInput HasAttribute \<and> called XmlInput HasAttribute \<noteq> AssertFalse"
  using assert_branches [of MemOutput SkipSection] assert_branches [of XmlInput HasAttribute]
    assert_branches [of MemInput HasAttribute]
  by (simp add: probe_defs)


section \<open>Extra constructor arguments on save\<close>

text \<open>
  Claim C6. On an output archive the overloads of \<^verbatim>\<open>serializeWithID\<close> with one, two or
  three extra constructor arguments give the same result, archive state or failure, as the
  call without them, whatever the arguments are.
\<close>

theorem extra_arguments_ignored:
  "OutputArchiveBase_serializeWithID1 beginTag endTag saver tag t t1 ar
     = OutputArchiveBase_serializeWithID beginTag endTag saver tag t ar
   \<and> OutputArchiveBase_serializeWithID2 beginTag endTag saver tag t t1 t2 ar
     = OutputArchiveBase_serializeWithID beginTag endTag saver tag t ar
   \<and> OutputArchiveBase_serializeWithID3 beginTag endTag saver tag t t1 t2 t3 ar
     = OutputArchiveBase_serializeWithID beginTag endTag saver tag t ar"
  by (simp add: OutputArchiveBase_serializeWithID1_def OutputArchiveBase_serializeWithID2_def
      OutputArchiveBase_serializeWithID3_def)


section \<open>Unregistered discriminators\<close>

text \<open>
  Claim C4. On load \<^verbatim>\<open>serializePolymorphic\<close> reads the discriminator and looks it up in the
  registry. When the discriminator is not registered the call fails with the
  unknown-discriminator error; and whenever the call succeeds, its result is the result of
  the routine registered for the discriminator that was read, so there is no fallback.
\<close>

theorem unregistered_discriminator_fails:
  "(load_type ar = Inr (type, ar1) \<and> registry type = None \<longrightarrow>
      InputArchiveBase_serializePolymorphic registry load_type tag t ar
        = Inl (UnknownDiscriminator type))
   \<and> (InputArchiveBase_serializePolymorphic registry load_type tag t ar = Inr res \<longrightarrow>
        (\<exists>type ar1 initializer. load_type ar = Inr (type, ar1)
           \<and> registry type = Some initializer \<and> initializer ar1 t = Inr res))"
  by (auto simp: InputArchiveBase_serializePolymorphic_def PolymorphicInitializerRegistry_init_def
      split: sum.splits option.splits)

theorem unregistered_discriminator_fails_witness:
  "next_string [''Other'', ''x''] = Inr (''Other'', [''x''])
   \<and> [''Derived'' \<mapsto> (\<lambda>ar (t :: nat). Inr (t + 1, ar))] ''Other'' = None
   \<and> InputArchiveBase_serializePolymorphic [''Derived'' \<mapsto> (\<lambda>ar (t :: nat). Inr (t + 1, ar))]
        next_string ''tag'' 5 [''Other'', ''x'']
       = Inl (UnknownDiscriminator ''Other'')"
  using unregistered_discriminator_fails [of next_string "[''Other'', ''x'']" "''Other''" "[''x'']"
      "[''Derived'' \<mapsto> (\<lambda>ar (t :: nat). Inr (t + 1, ar))]" "''tag''" 5]
  by simp

end
